theory Spec2Isabelle
  imports Main
begin

section \<open>The events replication stream (synapse/replication/tcp/streams/events.py)\<close>

subsection \<open>Python values and exceptions\<close>

text \<open>
  The fields of the row classes are declared with a bare \<^verbatim>\<open>attr.ib()\<close>: they take any
  Python value.  The values that travel on the replication stream are JSON values and the
  tuples of a database cursor, so the model has \<^verbatim>\<open>None\<close>, booleans, unbounded integers,
  strings, lists and tuples.
\<close>

datatype pyval =
    PNone
  | PBool bool
  | PInt int
  | PStr string
  | PList "pyval list"
  | PTuple "pyval list"

text \<open>
  The exceptions the module can raise.  None of them is raised by an explicit
  \<^verbatim>\<open>raise\<close>: \<^verbatim>\<open>KeyError\<close> comes from the dictionary lookup \<^verbatim>\<open>TypeToRow[typ]\<close>,
  \<^verbatim>\<open>TypeError\<close> from the call \<^verbatim>\<open>cls(*data)\<close> (wrong number of arguments, or a value
  that cannot be unpacked), \<^verbatim>\<open>IndexError\<close> from \<^verbatim>\<open>row[0]\<close>, and
  \<^verbatim>\<open>FrozenInstanceError\<close> from assigning to an attribute of a class declared
  \<^verbatim>\<open>frozen=True\<close>.  \<^verbatim>\<open>AttributeError\<close> is what an unfrozen class with slots would raise
  for an attribute it does not declare.  \<^verbatim>\<open>StoreError\<close> stands for whatever the
  datastore call raises.
\<close>

datatype error =
    KeyError
  | TypeError
  | IndexError
  | FrozenInstanceError
  | AttributeError
  | StoreError

text \<open>
  Argument unpacking \<^verbatim>\<open>*data\<close> iterates over \<^verbatim>\<open>data\<close>: a list or tuple gives its
  elements, a string its characters (as one-character strings), and \<^verbatim>\<open>None\<close>, a boolean
  or an integer is not iterable.
\<close>

fun py_iter :: "pyval \<Rightarrow> pyval list option" where
  "py_iter (PList xs) = Some xs"
| "py_iter (PTuple xs) = Some xs"
| "py_iter (PStr s) = Some (map (\<lambda>c. PStr [c]) s)"
| "py_iter PNone = None"
| "py_iter (PBool b) = None"
| "py_iter (PInt i) = None"

subsection \<open>Row classes\<close>

text \<open>
  \<^verbatim>\<open>EventsStreamEventRow\<close>: the five attributes in declaration order, which is the order
  of the positional arguments of the constructor that attrs generates.
\<close>

record EventsStreamEventRow =
  event_id :: pyval
  room_id :: pyval
  type :: pyval
  state_key :: pyval
  redacts :: pyval

text \<open>\<^verbatim>\<open>EventsStreamRow\<close>: a parsed row, the type identifier and the typed row.\<close>

record EventsStreamRow =
  type :: string
  data :: EventsStreamEventRow

text \<open>
  The subclasses of \<^verbatim>\<open>BaseEventsStreamRow\<close>.  The module declares one.  \<^verbatim>\<open>TypeId\<close> is
  the class attribute that identifies the class on the wire.
\<close>

datatype row_class = EventsStreamEventRow_class

fun TypeId :: "row_class \<Rightarrow> string" where
  "TypeId EventsStreamEventRow_class = ''ev''"

text \<open>
  \<^verbatim>\<open>from_data(cls, data)\<close> is \<^verbatim>\<open>cls(*data)\<close>.  The constructor of
  \<^verbatim>\<open>EventsStreamEventRow\<close> has five required positional parameters and no defaults, so the
  call raises \<^verbatim>\<open>TypeError\<close> unless \<^verbatim>\<open>data\<close> unpacks to exactly five values.
\<close>

fun from_data :: "row_class \<Rightarrow> pyval \<Rightarrow> error + EventsStreamEventRow" where
  "from_data EventsStreamEventRow_class dat =
     (case py_iter dat of
        None \<Rightarrow> Inl TypeError
      | Some args \<Rightarrow>
          if length args = 5
          then Inr \<lparr>event_id = args ! 0, room_id = args ! 1,
                    EventsStreamEventRow.type = args ! 2,
                    state_key = args ! 3, redacts = args ! 4\<rparr>
          else Inl TypeError)"

text \<open>
  \<^verbatim>\<open>TypeToRow\<close>: the dictionary comprehension
  \<^verbatim>\<open>{Row.TypeId: Row for Row in (EventsStreamEventRow,)}\<close>.
\<close>

definition TypeToRow :: "string \<rightharpoonup> row_class" where
  "TypeToRow = map_of (map (\<lambda>Row. (TypeId Row, Row)) [EventsStreamEventRow_class])"

text \<open>
  \<^verbatim>\<open>EventsStream.parse_row\<close>: unpack the pair, look the class up, build the typed row,
  wrap it.  A missing key and a failing constructor both leave the function by the
  exception, before \<^verbatim>\<open>EventsStreamRow\<close> is constructed.
\<close>

fun parse_row :: "string \<times> pyval \<Rightarrow> error + EventsStreamRow" where
  "parse_row (typ, dat) =
     (case TypeToRow typ of
        None \<Rightarrow> Inl KeyError
      | Some cls \<Rightarrow>
          (case from_data cls dat of
             Inl e \<Rightarrow> Inl e
           | Inr d \<Rightarrow> Inr \<lparr>EventsStreamRow.type = typ, data = d\<rparr>))"

text \<open>
  The wire form of a row, as the module's docstring gives it:
  \<^verbatim>\<open>RDATA events 12345 ["ev", ["$event:id", "!room:id", "m.type", null, null]]\<close>, the
  type identifier followed by the list of the five fields (event id, room id, type,
  state key, redacted event id).
\<close>

definition encode :: "EventsStreamEventRow \<Rightarrow> string \<times> pyval" where
  "encode r =
     (TypeId EventsStreamEventRow_class,
      PList [event_id r, room_id r, EventsStreamEventRow.type r, state_key r, redacts r])"

subsection \<open>The stream's update function\<close>

text \<open>
  The datastore is a collaborator of the stream (\<^verbatim>\<open>self._store\<close>), so its method
  \<^verbatim>\<open>get_all_new_forward_event_rows(from_token, current_token, limit)\<close> is a parameter
  here: a call either raises or returns the rows of a database cursor, each a tuple, given
  as the list of its columns.  Tokens are Python integers; \<^verbatim>\<open>limit\<close> defaults to
  \<^verbatim>\<open>None\<close>.
\<close>

type_synonym raw_row = "pyval list"

type_synonym datastore = "int \<Rightarrow> int \<Rightarrow> int option \<Rightarrow> error + raw_row list"

text \<open>
  An element of the generator \<^verbatim>\<open>event_updates\<close>: the tuple
  \<^verbatim>\<open>(row[0], EventsStreamEventRow.TypeId, row[1:])\<close>.  On a tuple without columns
  \<^verbatim>\<open>row[0]\<close> raises \<^verbatim>\<open>IndexError\<close>; the slice of a tuple is a tuple.
\<close>

type_synonym update = "pyval \<times> string \<times> pyval"

fun event_update :: "raw_row \<Rightarrow> error + update" where
  "event_update [] = Inl IndexError"
| "event_update (x # xs) = Inr (x, TypeId EventsStreamEventRow_class, PTuple xs)"

text \<open>
  The generator expression, consumed to its end: the elements in the order of
  \<^verbatim>\<open>event_rows\<close>, or the exception of the first row that raises.
\<close>

fun event_updates :: "raw_row list \<Rightarrow> error + update list" where
  "event_updates [] = Inr []"
| "event_updates (row # rows) =
     (case event_update row of
        Inl e \<Rightarrow> Inl e
      | Inr u \<Rightarrow>
          (case event_updates rows of
             Inl e \<Rightarrow> Inl e
           | Inr us \<Rightarrow> Inr (u # us)))"

text \<open>
  \<^verbatim>\<open>EventsStream.update_function\<close>: one call of the datastore with the three arguments
  as they came (an exception of the datastore propagates through the \<^verbatim>\<open>yield\<close>), then
  the generator over the rows.  There is no other statement in the function.
\<close>

definition update_function :: "datastore \<Rightarrow> int \<Rightarrow> int \<Rightarrow> int option \<Rightarrow> error + update list" where
  "update_function store from_token current_token limit =
     (case store from_token current_token limit of
        Inl e \<Rightarrow> Inl e
      | Inr event_rows \<Rightarrow> event_updates event_rows)"

text \<open>
  Two datastores to run the function on: one that holds no events and so answers every
  call with no rows, and one whose call raises, whatever the arguments.
\<close>

definition empty_store :: datastore where
  "empty_store from_token current_token limit = Inr []"

definition failing_store :: datastore where
  "failing_store from_token current_token limit = Inl StoreError"

subsection \<open>The datastore's query\<close>

text \<open>
  Modelled from the spec: the datastore and its method are not in the module.  A raw
  change record of the authority is its position in the log and the five raw fields
  \<^verbatim>\<open>(position, event_id, room_id, kind, state_key_or_null, redacts_or_null)\<close>, the
  last two of which may be absent.
\<close>

record change_record =
  position :: int
  raw_event_id :: string
  raw_room_id :: string
  kind :: string
  state_key_or_null :: "string option"
  redacts_or_null :: "string option"

fun or_null :: "string option \<Rightarrow> pyval" where
  "or_null None = PNone"
| "or_null (Some s) = PStr s"

definition raw_tuple :: "change_record \<Rightarrow> raw_row" where
  "raw_tuple c =
     [PInt (position c), PStr (raw_event_id c), PStr (raw_room_id c), PStr (kind c),
      or_null (state_key_or_null c), or_null (redacts_or_null c)]"

definition in_range :: "int \<Rightarrow> int \<Rightarrow> change_record \<Rightarrow> bool" where
  "in_range from_token to_token c \<longleftrightarrow> from_token < position c \<and> position c \<le> to_token"

fun capped :: "int option \<Rightarrow> 'a list \<Rightarrow> 'a list" where
  "capped None xs = xs"
| "capped (Some n) xs = take (nat n) xs"

text \<open>
  Modelled from the spec: the datastore method \<^verbatim>\<open>get_all_new_forward_event_rows\<close> is
  not in the module.  The specification gives its contract as
  \<^verbatim>\<open>query_changes(from_token, to_token, limit)\<close>: all raw change records with position in
  \<^verbatim>\<open>(from_token, to_token]\<close>, ordered by position ascending (records of one position in
  emission order), capped at \<^verbatim>\<open>limit\<close> records if a limit is given, each as the raw tuple
  \<^verbatim>\<open>(position, event_id, room_id, kind, state_key_or_null, redacts_or_null)\<close>.  The
  first argument is the authority's log in emission order.
\<close>

definition get_all_new_forward_event_rows :: "change_record list \<Rightarrow> datastore" where
  "get_all_new_forward_event_rows changes from_token to_token limit =
     Inr (map raw_tuple
            (capped limit (sort_key position (filter (in_range from_token to_token) changes))))"

text \<open>The scenario of the specification: two events, at positions 10 and 11.\<close>

definition scenario_log :: "change_record list" where
  "scenario_log =
     [\<lparr>position = 10, raw_event_id = ''$a'', raw_room_id = ''!r1'', kind = ''m.text'',
       state_key_or_null = None, redacts_or_null = None\<rparr>,
      \<lparr>position = 11, raw_event_id = ''$b'', raw_room_id = ''!r1'', kind = ''m.redaction'',
       state_key_or_null = None, redacts_or_null = Some ''$a''\<rparr>]"

subsection \<open>Row objects and attribute assignment\<close>

text \<open>
  Both row classes are declared \<^verbatim>\<open>@attr.s(slots=True, frozen=True)\<close>.  To say what that
  means for an object after its construction, objects live in a heap: an object is the
  options of its class and its attributes in declaration order, an attribute holding a
  value or a reference to another object.
\<close>

record attrs_options =
  slots :: bool
  frozen :: bool

definition EventsStreamRow_options :: attrs_options where
  "EventsStreamRow_options = \<lparr>slots = True, frozen = True\<rparr>"

definition EventsStreamEventRow_options :: attrs_options where
  "EventsStreamEventRow_options = \<lparr>slots = True, frozen = True\<rparr>"

datatype attribute = Value pyval | Reference nat

record py_object =
  options :: attrs_options
  attributes :: "(string \<times> attribute) list"

type_synonym heap = "py_object list"

text \<open>The constructors that attrs generates: a new object with every declared attribute set.\<close>

definition new_EventsStreamEventRow :: "EventsStreamEventRow \<Rightarrow> heap \<Rightarrow> nat \<times> heap" where
  "new_EventsStreamEventRow r h =
     (length h,
      h @ [\<lparr>options = EventsStreamEventRow_options,
             attributes =
               [(''event_id'', Value (event_id r)), (''room_id'', Value (room_id r)),
                (''type'', Value (EventsStreamEventRow.type r)),
                (''state_key'', Value (state_key r)), (''redacts'', Value (redacts r))]\<rparr>])"

definition new_EventsStreamRow :: "string \<Rightarrow> nat \<Rightarrow> heap \<Rightarrow> nat \<times> heap" where
  "new_EventsStreamRow typ d h =
     (length h,
      h @ [\<lparr>options = EventsStreamRow_options,
             attributes = [(''type'', Value (PStr typ)), (''data'', Reference d)]\<rparr>])"

text \<open>
  \<^verbatim>\<open>obj.name = value\<close> and \<^verbatim>\<open>del obj.name\<close>.  A class with \<^verbatim>\<open>frozen=True\<close> raises
  \<^verbatim>\<open>FrozenInstanceError\<close> on both; otherwise the attribute is written or removed, where
  a class with \<^verbatim>\<open>slots=True\<close> has no attributes but the declared ones.
\<close>

fun assign :: "string \<Rightarrow> attribute \<Rightarrow> (string \<times> attribute) list \<Rightarrow> (string \<times> attribute) list" where
  "assign name v [] = [(name, v)]"
| "assign name v ((k, w) # kvs) =
     (if k = name then (k, v) # kvs else (k, w) # assign name v kvs)"

definition setattr :: "py_object \<Rightarrow> string \<Rightarrow> attribute \<Rightarrow> error + py_object" where
  "setattr obj name v =
     (if frozen (options obj) then Inl FrozenInstanceError
      else if slots (options obj) \<and> name \<notin> fst ` set (attributes obj) then Inl AttributeError
      else Inr (obj\<lparr>attributes := assign name v (attributes obj)\<rparr>))"

definition delattr :: "py_object \<Rightarrow> string \<Rightarrow> error + py_object" where
  "delattr obj name =
     (if frozen (options obj) then Inl FrozenInstanceError
      else if name \<notin> fst ` set (attributes obj) then Inl AttributeError
      else Inr (obj\<lparr>attributes := filter (\<lambda>kv. fst kv \<noteq> name) (attributes obj)\<rparr>))"

text \<open>
  The operations that construct or touch row objects: \<^verbatim>\<open>from_data\<close> and
  \<^verbatim>\<open>parse_row\<close> (the two places of the module where a row class is called) and, from any
  holder of an object, assignment to and deletion of one of its attributes.  A failed
  operation leaves the heap as it was, and so does an assignment or deletion at an
  address that holds no object (there is no reference to such an address in a program).
  \<^verbatim>\<open>update_function\<close> builds tuples only.
\<close>

datatype operation =
    Call_from_data pyval
  | Call_parse_row string pyval
  | Assign nat string attribute
  | Delete nat string

fun exec :: "operation \<Rightarrow> heap \<Rightarrow> heap" where
  "exec (Call_from_data dat) h =
     (case from_data EventsStreamEventRow_class dat of
        Inl e \<Rightarrow> h
      | Inr r \<Rightarrow> snd (new_EventsStreamEventRow r h))"
| "exec (Call_parse_row typ dat) h =
     (case parse_row (typ, dat) of
        Inl e \<Rightarrow> h
      | Inr row \<Rightarrow>
          (case new_EventsStreamEventRow (data row) h of
             (d, h') \<Rightarrow> snd (new_EventsStreamRow (EventsStreamRow.type row) d h')))"
| "exec (Assign a name v) h =
     (if a < length h
      then (case setattr (h ! a) name v of Inl e \<Rightarrow> h | Inr obj \<Rightarrow> h[a := obj])
      else h)"
| "exec (Delete a name) h =
     (if a < length h
      then (case delattr (h ! a) name of Inl e \<Rightarrow> h | Inr obj \<Rightarrow> h[a := obj])
      else h)"

fun run :: "operation list \<Rightarrow> heap \<Rightarrow> heap" where
  "run [] h = h"
| "run (op # ops) h = run ops (exec op h)"

definition all_frozen :: "heap \<Rightarrow> bool" where
  "all_frozen h \<longleftrightarrow> list_all (\<lambda>obj. frozen (options obj)) h"

subsection \<open>Calls in sequence: the datastore's state and the returned generators\<close>

text \<open>
  What \<^verbatim>\<open>update_function\<close> returns is a generator, an object with a state of its own
  that yields its elements one \<^verbatim>\<open>next\<close> at a time and only once; and a call of the
  datastore may change the datastore (its connections, caches, counters).  To speak of one
  call made after another, the calls run in a world: the state of the datastore and the
  generators created so far, each given by the rows it has not visited yet.  A call of
  the datastore returns its answer and the datastore's next state.
\<close>

type_synonym 's query = "'s \<Rightarrow> int \<Rightarrow> int \<Rightarrow> int option \<Rightarrow> (error + raw_row list) \<times> 's"

record 's world =
  store_state :: 's
  generators :: "raw_row list list"

text \<open>
  A call of \<^verbatim>\<open>update_function\<close> in a world: the datastore is called once; if it raises,
  so does the call; otherwise a new generator over the returned rows is created and
  returned (its address among the generators).  Nothing is kept on the stream object.
\<close>

definition update_function_call ::
  "'s query \<Rightarrow> int \<Rightarrow> int \<Rightarrow> int option \<Rightarrow> 's world \<Rightarrow> (error + nat) \<times> 's world" where
  "update_function_call q from_token current_token limit w =
     (case q (store_state w) from_token current_token limit of
        (Inl e, s) \<Rightarrow> (Inl e, w\<lparr>store_state := s\<rparr>)
      | (Inr event_rows, s) \<Rightarrow>
          (Inr (length (generators w)),
           w\<lparr>store_state := s, generators := generators w @ [event_rows]\<rparr>))"

text \<open>
  One \<^verbatim>\<open>next\<close> on a generator: the element for the next row, \<^verbatim>\<open>StopIteration\<close> when no
  row is left, or the exception of the element expression, after which the generator is
  finished.
\<close>

datatype next_result = Yield update | StopIteration | Raise error

fun gen_next :: "raw_row list \<Rightarrow> next_result \<times> raw_row list" where
  "gen_next [] = (StopIteration, [])"
| "gen_next (row # rows) =
     (case event_update row of
        Inl e \<Rightarrow> (Raise e, [])
      | Inr u \<Rightarrow> (Yield u, rows))"

definition next_call :: "nat \<Rightarrow> 's world \<Rightarrow> next_result \<times> 's world" where
  "next_call g w =
     (if g < length (generators w)
      then (case gen_next (generators w ! g) of
              (r, rows) \<Rightarrow> (r, w\<lparr>generators := (generators w)[g := rows]\<rparr>))
      else (StopIteration, w))"

text \<open>
  Consuming a generator to its end, as \<^verbatim>\<open>list(...)\<close> or a \<^verbatim>\<open>for\<close> loop does: call
  \<^verbatim>\<open>next\<close> until it stops or raises.  The loop ends because every element taken leaves
  one row less to visit.
\<close>

definition pending :: "nat \<Rightarrow> 's world \<Rightarrow> nat" where
  "pending g w = (if g < length (generators w) then length (generators w ! g) else 0)"

function drain :: "nat \<Rightarrow> 's world \<Rightarrow> (error + update list) \<times> 's world" where
  "drain g w =
     (case next_call g w of
        (StopIteration, w') \<Rightarrow> (Inr [], w')
      | (Raise e, w') \<Rightarrow> (Inl e, w')
      | (Yield u, w') \<Rightarrow>
          (case drain g w' of
             (Inl e, w'') \<Rightarrow> (Inl e, w'')
           | (Inr us, w'') \<Rightarrow> (Inr (u # us), w'')))"
  by pat_completeness auto
termination
proof (relation "measure (\<lambda>(g, w). pending g w)")
  show "wf (measure (\<lambda>(g, w). pending g w))"
    by simp
next
  fix g :: nat and w :: "'s world" and x w' u
  assume "(x, w') = next_call g w" and "x = Yield u"
  then have "next_call g w = (Yield u, w')"
    by simp
  then have "pending g w' < pending g w"
    by (cases "generators w ! g")
      (auto simp: next_call_def pending_def split: if_splits sum.splits)
  then show "((g, w'), (g, w)) \<in> measure (\<lambda>(g, w). pending g w)"
    by simp
qed

declare drain.simps [simp del]

text \<open>One poll: the call, then the returned generator consumed to its end.\<close>

definition poll ::
  "'s query \<Rightarrow> int \<Rightarrow> int \<Rightarrow> int option \<Rightarrow> 's world \<Rightarrow> (error + update list) \<times> 's world" where
  "poll q from_token current_token limit w =
     (case update_function_call q from_token current_token limit w of
        (Inl e, w') \<Rightarrow> (Inl e, w')
      | (Inr g, w') \<Rightarrow> drain g w')"

text \<open>A datastore that counts the calls made to it and answers each with the same two rows.\<close>

definition counting_store :: "nat query" where
  "counting_store n from_token current_token limit =
     (Inr [[PInt 10, PStr ''$a''], [PInt 11, PStr ''$b'']], Suc n)"

subsection \<open>Python values with row objects\<close>

text \<open>
  To compare what the generator yields with a value that holds a row object, the plain
  values are joined by the objects of \<^verbatim>\<open>EventsStreamRow\<close> and by tuples with such
  components.  An element of the generator is the Python tuple of its three components.
\<close>

datatype py_value = Plain pyval | Tuple "py_value list" | Row_object EventsStreamRow

definition as_value :: "update \<Rightarrow> py_value" where
  "as_value u = (case u of (pos, tag, dat) \<Rightarrow> Tuple [Plain pos, Plain (PStr tag), Plain dat])"

section \<open>Decoding\<close>

lemma TypeToRow_ev: "TypeToRow ''ev'' = Some EventsStreamEventRow_class"
  by (simp add: TypeToRow_def)

lemma TypeToRow_other: "typ \<noteq> ''ev'' \<Longrightarrow> TypeToRow typ = None"
  by (simp add: TypeToRow_def)

lemma dom_TypeToRow: "dom TypeToRow = {''ev''}"
  by (auto simp: TypeToRow_def dom_def)

lemma from_data_five:
  "py_iter dat = Some [a, b, c, d, e] \<Longrightarrow>
   from_data EventsStreamEventRow_class dat =
     Inr \<lparr>event_id = a, room_id = b, EventsStreamEventRow.type = c,
          state_key = d, redacts = e\<rparr>"
  by simp

text \<open>
  Claim C1 (round trip).  For every row of the one registered class, with any values in
  its five fields, \<^verbatim>\<open>parse_row\<close> applied to the wire form of the row (its \<^verbatim>\<open>TypeId\<close> and
  the list of its fields in declaration order) returns an \<^verbatim>\<open>EventsStreamRow\<close> whose type
  is the \<^verbatim>\<open>TypeId\<close> and whose data is the row itself.
\<close>

theorem parse_row_encode:
  "parse_row (encode r) = Inr \<lparr>EventsStreamRow.type = ''ev'', data = r\<rparr>"
  by (simp add: encode_def TypeToRow_ev)

text \<open>
  Claim C3 (unknown tag).  For every type identifier that is not a key of \<^verbatim>\<open>TypeToRow\<close>
  and every data value, \<^verbatim>\<open>parse_row\<close> raises the \<^verbatim>\<open>KeyError\<close> of the failed lookup
  (the module's form of the unknown-row-type failure) and returns no row at all.
\<close>

theorem parse_row_unknown_type:
  assumes "typ \<notin> dom TypeToRow"
  shows "parse_row (typ, dat) = Inl KeyError \<and> (\<forall>r. parse_row (typ, dat) \<noteq> Inr r)"
proof -
  from assms have "TypeToRow typ = None"
    by (simp add: domIff)
  then show ?thesis
    by simp
qed

theorem parse_row_unknown_type_witness:
  "''nonexistent_tag'' \<notin> dom TypeToRow \<and>
   parse_row (''nonexistent_tag'', PList [PStr ''$a'', PStr ''!r1'', PStr ''m.text'', PNone, PNone])
     = Inl KeyError"
  using parse_row_unknown_type
    [of "''nonexistent_tag''" "PList [PStr ''$a'', PStr ''!r1'', PStr ''m.text'', PNone, PNone]"]
  by (simp add: dom_TypeToRow)

text \<open>
  Claim C4 (arity).  Whenever the data unpacks to a number of values other than five, the
  declared number of fields, \<^verbatim>\<open>from_data\<close> raises the \<^verbatim>\<open>TypeError\<close> of the constructor
  call (the module's form of the malformed-row failure), and so does \<^verbatim>\<open>parse_row\<close> under
  the tag \<^verbatim>\<open>"ev"\<close>.
\<close>

theorem from_data_arity:
  assumes "py_iter dat = Some args" and "length args \<noteq> 5"
  shows "from_data EventsStreamEventRow_class dat = Inl TypeError \<and>
         parse_row (''ev'', dat) = Inl TypeError"
  using assms by (simp add: TypeToRow_ev)

theorem from_data_arity_witness:
  "py_iter (PList [PStr ''$a'']) = Some [PStr ''$a''] \<and>
   length [PStr ''$a''] \<noteq> 5 \<and>
   parse_row (''ev'', PList [PStr ''$a'']) = Inl TypeError"
  using from_data_arity [of "PList [PStr ''$a'']" "[PStr ''$a'']"]
  by simp

section \<open>The update function\<close>

lemma event_update_nonempty:
  "row \<noteq> [] \<Longrightarrow> event_update row = Inr (row ! 0, ''ev'', PTuple (drop 1 row))"
  by (cases row) simp_all

lemma event_updates_map:
  "\<forall>row\<in>set rows. row \<noteq> [] \<Longrightarrow>
   event_updates rows = Inr (map (\<lambda>row. (row ! 0, ''ev'', PTuple (drop 1 row))) rows)"
  by (induction rows) (simp_all add: event_update_nonempty)

lemma event_updates_empty_row: "[] \<in> set rows \<Longrightarrow> event_updates rows = Inl IndexError"
  by (induction rows) (auto split: sum.splits elim: event_update.elims)

text \<open>
  Claim C10.  Whatever rows the datastore call returns (each a tuple with at least its
  first column), the update function yields one element for each row, in the same order:
  the row's first column, the constant tag \<^verbatim>\<open>"ev"\<close> and the tuple of the remaining
  columns.
\<close>

theorem update_function_rows:
  assumes "store from_token current_token limit = Inr event_rows"
    and "\<forall>row\<in>set event_rows. row \<noteq> []"
  shows "update_function store from_token current_token limit =
           Inr (map (\<lambda>row. (row ! 0, ''ev'', PTuple (drop 1 row))) event_rows)"
  using assms by (simp add: update_function_def event_updates_map)

theorem update_function_rows_witness:
  "update_function (\<lambda>f t l. Inr [[PInt 3, PStr ''$x'', PNone], [PInt 3], [PInt 4, PStr ''$y'']])
     2 4 (Some 10)
   = Inr [(PInt 3, ''ev'', PTuple [PStr ''$x'', PNone]),
          (PInt 3, ''ev'', PTuple []),
          (PInt 4, ''ev'', PTuple [PStr ''$y''])]"
  using update_function_rows
    [of "\<lambda>f t l. Inr [[PInt 3, PStr ''$x'', PNone], [PInt 3], [PInt 4, PStr ''$y'']]"
        2 4 "Some 10" "[[PInt 3, PStr ''$x'', PNone], [PInt 3], [PInt 4, PStr ''$y'']]"]
  by simp

text \<open>
  Claim C2, as stated, fails.  With \<^verbatim>\<open>from_token = 11\<close> above \<^verbatim>\<open>current_token = 5\<close>
  the call over a datastore without events returns the empty sequence and raises nothing;
  and over a datastore whose call fails it ends in the datastore's own failure, so the
  datastore was called.
\<close>

theorem update_function_inverted_range_counterexample:
  "update_function empty_store 11 5 None = Inr [] \<and>
   update_function failing_store 11 5 None = Inl StoreError"
  by (simp add: update_function_def empty_store_def failing_store_def)

text \<open>
  Claim C2, as amended.  The update function has no check of its tokens.  With
  \<^verbatim>\<open>from_token\<close> above \<^verbatim>\<open>current_token\<close> it still calls the datastore with the tokens
  as given, and if the datastore answers with rows it returns one tagged element for
  each of them; it does not fail.
\<close>

theorem update_function_inverted_range:
  assumes "current_token < from_token"
    and "store from_token current_token limit = Inr event_rows"
    and "\<forall>row\<in>set event_rows. row \<noteq> []"
  shows "update_function store from_token current_token limit =
           Inr (map (\<lambda>row. (row ! 0, ''ev'', PTuple (drop 1 row))) event_rows) \<and>
         (\<forall>e. update_function store from_token current_token limit \<noteq> Inl e)"
  using assms(2,3) by (simp add: update_function_def event_updates_map)

theorem update_function_inverted_range_witness:
  "update_function (\<lambda>f t l. Inr [[PInt 7, PStr ''$x'']]) 11 5 None
     = Inr [(PInt 7, ''ev'', PTuple [PStr ''$x''])]"
  using update_function_inverted_range
    [of 5 11 "\<lambda>f t l. Inr [[PInt 7, PStr ''$x'']]" None "[[PInt 7, PStr ''$x'']]"]
  by simp

section \<open>The update function over the datastore's query\<close>

lemma capped_Nil: "capped limit [] = []"
  by (cases limit) simp_all

lemma event_updates_raw:
  "event_updates (map raw_tuple cs) =
     Inr (map (\<lambda>c. (PInt (position c), ''ev'',
                     PTuple [PStr (raw_event_id c), PStr (raw_room_id c), PStr (kind c),
                             or_null (state_key_or_null c), or_null (redacts_or_null c)])) cs)"
  by (induction cs) (simp_all add: raw_tuple_def)

lemma update_function_query:
  "update_function (get_all_new_forward_event_rows changes) from_token to_token limit =
     event_updates (map raw_tuple
       (capped limit (sort_key position (filter (in_range from_token to_token) changes))))"
  by (simp add: update_function_def get_all_new_forward_event_rows_def)

lemma filter_range_split:
  fixes f :: "'a \<Rightarrow> int"
  assumes "sorted (map f xs)" and "a \<le> b" and "b \<le> c"
  shows "filter (\<lambda>x. a < f x \<and> f x \<le> c) xs =
         filter (\<lambda>x. a < f x \<and> f x \<le> b) xs @ filter (\<lambda>x. b < f x \<and> f x \<le> c) xs"
  using assms
proof (induction xs)
  case Nil
  then show ?case by simp
next
  case (Cons x xs)
  then have IH: "filter (\<lambda>x. a < f x \<and> f x \<le> c) xs =
         filter (\<lambda>x. a < f x \<and> f x \<le> b) xs @ filter (\<lambda>x. b < f x \<and> f x \<le> c) xs"
    by simp
  show ?case
  proof (cases "f x \<le> b")
    case True
    with Cons.prems IH show ?thesis by auto
  next
    case False
    with Cons.prems have "\<forall>y\<in>set xs. \<not> (a < f y \<and> f y \<le> b)"
      by auto
    then have "filter (\<lambda>x. a < f x \<and> f x \<le> b) xs = []"
      by (simp add: filter_empty_conv)
    with False Cons.prems IH show ?thesis by auto
  qed
qed

lemma query_split:
  assumes "a \<le> b" and "b \<le> c"
  shows "sort_key position (filter (in_range a c) cs) =
         sort_key position (filter (in_range a b) cs) @
         sort_key position (filter (in_range b c) cs)"
proof -
  have "sorted (map position (sort_key position cs))"
    by simp
  from filter_range_split [OF this assms]
  show ?thesis
    by (simp add: in_range_def [abs_def] filter_sort)
qed

text \<open>
  Claim C5, as stated, fails.  With the two events of the scenario in the datastore, what
  the update function yields for tokens 5 and 11 is not the sequence of the two pairs of a
  position and an \<^verbatim>\<open>EventsStreamRow\<close>: its elements are tuples of three components and
  hold no row object.
\<close>

theorem update_function_scenario_counterexample:
  "map_sum id (map as_value)
     (update_function (get_all_new_forward_event_rows scenario_log) 5 11 None) \<noteq>
   Inr [Tuple [Plain (PInt 10),
               Row_object \<lparr>EventsStreamRow.type = ''ev'',
                    data = \<lparr>event_id = PStr ''$a'', room_id = PStr ''!r1'',
                            EventsStreamEventRow.type = PStr ''m.text'',
                            state_key = PNone, redacts = PNone\<rparr>\<rparr>],
        Tuple [Plain (PInt 11),
               Row_object \<lparr>EventsStreamRow.type = ''ev'',
                    data = \<lparr>event_id = PStr ''$b'', room_id = PStr ''!r1'',
                            EventsStreamEventRow.type = PStr ''m.redaction'',
                            state_key = PNone, redacts = PStr ''$a''\<rparr>\<rparr>]]"
  by (simp add: update_function_def get_all_new_forward_event_rows_def scenario_log_def
      in_range_def raw_tuple_def as_value_def)

text \<open>
  Claim C5, as amended.  With the two events of the scenario in the datastore, the update
  function called with tokens 5 and 11 and no limit yields exactly two elements, in this
  order: position 10 and position 11, each with the tag \<^verbatim>\<open>"ev"\<close> and the tuple of the
  five raw fields (\<^verbatim>\<open>None\<close> for an absent one).  It builds no row object; \<^verbatim>\<open>parse_row\<close>
  applied to the tag and fields of each element it yields gives the \<^verbatim>\<open>EventsStreamRow\<close>
  of type \<^verbatim>\<open>"ev"\<close> holding the \<^verbatim>\<open>EventsStreamEventRow\<close> with these fields.
\<close>

theorem update_function_scenario:
  "update_function (get_all_new_forward_event_rows scenario_log) 5 11 None =
     Inr [(PInt 10, ''ev'', PTuple [PStr ''$a'', PStr ''!r1'', PStr ''m.text'', PNone, PNone]),
          (PInt 11, ''ev'', PTuple [PStr ''$b'', PStr ''!r1'', PStr ''m.redaction'', PNone,
                                    PStr ''$a''])] \<and>
   map_sum id (map (\<lambda>(pos, row). (pos, parse_row row)))
     (update_function (get_all_new_forward_event_rows scenario_log) 5 11 None) =
     Inr [(PInt 10, Inr \<lparr>EventsStreamRow.type = ''ev'',
                         data = \<lparr>event_id = PStr ''$a'', room_id = PStr ''!r1'',
                                 EventsStreamEventRow.type = PStr ''m.text'',
                                 state_key = PNone, redacts = PNone\<rparr>\<rparr>),
          (PInt 11, Inr \<lparr>EventsStreamRow.type = ''ev'',
                         data = \<lparr>event_id = PStr ''$b'', room_id = PStr ''!r1'',
                                 EventsStreamEventRow.type = PStr ''m.redaction'',
                                 state_key = PNone, redacts = PStr ''$a''\<rparr>\<rparr>)]"
  by (simp add: update_function_def get_all_new_forward_event_rows_def scenario_log_def
      in_range_def raw_tuple_def TypeToRow_ev)

text \<open>
  Claim C6 (empty range).  For every token and every limit, the update function called
  with the token as both bounds yields the empty sequence, whatever the datastore holds.
\<close>

theorem update_function_empty_range:
  "update_function (get_all_new_forward_event_rows changes) T T limit = Inr []"
  by (simp add: update_function_query in_range_def [abs_def] capped_Nil)

theorem update_function_empty_range_witness:
  "update_function (get_all_new_forward_event_rows scenario_log) 10 10 (Some 3) = Inr []"
  using update_function_empty_range [of scenario_log 10 "Some 3"]
  by simp

text \<open>
  Claim C7 (range monotonicity).  For tokens \<open>A \<le> B \<le> C\<close> and one state of the
  datastore, the calls for \<open>(A, B)\<close> and \<open>(B, C)\<close> both succeed, and the call for
  \<open>(A, C)\<close> yields the elements of the first followed by the elements of the second.
  The calls are made as the claim writes them, without a limit.
\<close>

theorem update_function_range_concat:
  assumes "A \<le> B" and "B \<le> C"
  shows "\<exists>xs ys.
           update_function (get_all_new_forward_event_rows changes) A B None = Inr xs \<and>
           update_function (get_all_new_forward_event_rows changes) B C None = Inr ys \<and>
           update_function (get_all_new_forward_event_rows changes) A C None = Inr (xs @ ys)"
proof -
  let ?q = "\<lambda>a b. sort_key position (filter (in_range a b) changes)"
  let ?tag = "\<lambda>c. (PInt (position c), ''ev'',
                    PTuple [PStr (raw_event_id c), PStr (raw_room_id c), PStr (kind c),
                            or_null (state_key_or_null c), or_null (redacts_or_null c)])"
  have run: "update_function (get_all_new_forward_event_rows changes) a b None =
               Inr (map ?tag (?q a b))" for a b
    by (simp add: update_function_query event_updates_raw)
  have "?q A C = ?q A B @ ?q B C"
    using assms by (rule query_split)
  then have "map ?tag (?q A C) = map ?tag (?q A B) @ map ?tag (?q B C)"
    by simp
  with run [of A B] run [of B C] run [of A C] show ?thesis
    by simp
qed

theorem update_function_range_concat_witness:
  "\<exists>xs ys.
     update_function (get_all_new_forward_event_rows scenario_log) 5 10 None = Inr xs \<and>
     update_function (get_all_new_forward_event_rows scenario_log) 10 11 None = Inr ys \<and>
     update_function (get_all_new_forward_event_rows scenario_log) 5 11 None = Inr (xs @ ys)"
  using update_function_range_concat [of 5 10 11 scenario_log]
  by simp

section \<open>Calls in sequence\<close>

text \<open>
  Consuming a generator yields what the generator expression yields over the rows the
  generator still holds, leaves the generator empty, and touches neither the datastore
  nor any other generator.
\<close>

lemma drain_generator:
  "g < length (generators w) \<Longrightarrow> generators w ! g = rows \<Longrightarrow>
   drain g w = (event_updates rows, w\<lparr>generators := (generators w)[g := []]\<rparr>)"
proof (induction rows arbitrary: w)
  case Nil
  then show ?case
    by (subst drain.simps) (simp add: next_call_def)
next
  case (Cons row rows)
  show ?case
  proof (cases "event_update row")
    case (Inl e)
    with Cons.prems show ?thesis
      by (subst drain.simps) (simp add: next_call_def)
  next
    case (Inr u)
    let ?w = "w\<lparr>generators := (generators w)[g := rows]\<rparr>"
    from Cons.prems have "drain g ?w =
        (event_updates rows, ?w\<lparr>generators := (generators ?w)[g := []]\<rparr>)"
      by (intro Cons.IH) simp_all
    with Cons.prems Inr show ?thesis
      by (subst drain.simps) (simp add: next_call_def split: sum.splits)
  qed
qed

text \<open>A generator is good for one pass: consumed a second time it yields nothing.\<close>

lemma generator_one_shot:
  assumes "g < length (generators w)"
  shows "fst (drain g (snd (drain g w))) = Inr []"
  using assms by (simp add: drain_generator)

text \<open>
  The result of a poll is the update function of the datastore's answer in the world of
  the call; the generators of earlier calls, consumed or not, have no part in it.
\<close>

lemma poll_result:
  "fst (poll q from_token current_token limit w) =
     update_function (\<lambda>f t l. fst (q (store_state w) f t l)) from_token current_token limit"
  by (cases "q (store_state w) from_token current_token limit")
    (auto simp: poll_def update_function_call_def update_function_def drain_generator
      split: sum.splits)

text \<open>
  Two calls with the same arguments return two generators; consumed in either order,
  each yields its own elements.
\<close>

lemma generators_independent:
  assumes "update_function_call q from_token current_token limit w = (Inr g1, w1)"
    and "update_function_call q from_token current_token limit w1 = (Inr g2, w2)"
    and "fst (q (store_state w) from_token current_token limit) =
         fst (q (store_state w1) from_token current_token limit)"
  shows "g1 \<noteq> g2"
    and "fst (drain g1 w2) = fst (drain g2 (snd (drain g1 w2)))"
    and "fst (drain g2 w2) = fst (drain g1 (snd (drain g2 w2)))"
proof -
  obtain a1 s1 where q1: "q (store_state w) from_token current_token limit = (a1, s1)"
    by (cases "q (store_state w) from_token current_token limit")
  with assms(1) obtain rows where a1: "a1 = Inr rows"
    by (cases a1) (simp_all add: update_function_call_def)
  from assms(1) q1 a1 have g1: "g1 = length (generators w)"
    and w1: "w1 = w\<lparr>store_state := s1, generators := generators w @ [rows]\<rparr>"
    by (simp_all add: update_function_call_def)
  obtain a2 s2 where q2: "q (store_state w1) from_token current_token limit = (a2, s2)"
    by (cases "q (store_state w1) from_token current_token limit")
  from assms(3) q1 q2 a1 have a2: "a2 = Inr rows"
    by simp
  from assms(2) q2 a2 w1 have g2: "g2 = Suc (length (generators w))"
    and w2: "generators w2 = generators w @ [rows, rows]"
    by (auto simp: update_function_call_def)
  from g1 g2 show "g1 \<noteq> g2"
    by simp
  from g1 g2 w2 have at1: "g1 < length (generators w2)" "generators w2 ! g1 = rows"
    and at2: "g2 < length (generators w2)" "generators w2 ! g2 = rows"
    by (simp_all add: nth_append)
  from at1 have d1: "drain g1 w2 =
      (event_updates rows, w2\<lparr>generators := (generators w2)[g1 := []]\<rparr>)"
    by (rule drain_generator)
  from at2 have d2: "drain g2 w2 =
      (event_updates rows, w2\<lparr>generators := (generators w2)[g2 := []]\<rparr>)"
    by (rule drain_generator)
  from at1 at2 g1 g2 show "fst (drain g1 w2) = fst (drain g2 (snd (drain g1 w2)))"
    by (simp add: d1 drain_generator)
  from at1 at2 g1 g2 show "fst (drain g2 w2) = fst (drain g1 (snd (drain g2 w2)))"
    by (simp add: d2 drain_generator)
qed

text \<open>
  Claim C8.  Two polls with the same tokens and limit, the second made in the world the
  first has left (its generator consumed, the datastore in whatever state the first call
  put it), to which the datastore returns the same raw rows, produce the same result: the
  same elements in the same order, or the same exception.
\<close>

theorem update_function_replay:
  assumes "poll q from_token current_token limit w = (r1, w1)"
    and "poll q from_token current_token limit w1 = (r2, w2)"
    and "fst (q (store_state w) from_token current_token limit) =
         fst (q (store_state w1) from_token current_token limit)"
  shows "r1 = r2"
proof -
  from assms(1) have "r1 = update_function (\<lambda>f t l. fst (q (store_state w) f t l))
      from_token current_token limit"
    using poll_result [of q from_token current_token limit w] by simp
  moreover from assms(2) have "r2 = update_function (\<lambda>f t l. fst (q (store_state w1) f t l))
      from_token current_token limit"
    using poll_result [of q from_token current_token limit w1] by simp
  ultimately show ?thesis
    using assms(3) by (simp add: update_function_def)
qed

theorem update_function_replay_witness:
  "fst (poll counting_store 5 11 None \<lparr>store_state = 0, generators = []\<rparr>) =
     Inr [(PInt 10, ''ev'', PTuple [PStr ''$a'']), (PInt 11, ''ev'', PTuple [PStr ''$b''])] \<and>
   fst (poll counting_store 5 11 None
          (snd (poll counting_store 5 11 None \<lparr>store_state = 0, generators = []\<rparr>))) =
     Inr [(PInt 10, ''ev'', PTuple [PStr ''$a'']), (PInt 11, ''ev'', PTuple [PStr ''$b''])]"
proof -
  let ?w = "\<lparr>store_state = 0 :: nat, generators = []\<rparr>"
  let ?w1 = "snd (poll counting_store 5 11 None ?w)"
  have same: "fst (counting_store (store_state ?w) 5 11 None) =
              fst (counting_store (store_state ?w1) 5 11 None)"
    by (simp add: counting_store_def)
  have "fst (poll counting_store 5 11 None ?w) = fst (poll counting_store 5 11 None ?w1)"
    by (rule update_function_replay [OF surjective_pairing surjective_pairing same])
  moreover have "fst (poll counting_store 5 11 None ?w) =
      Inr [(PInt 10, ''ev'', PTuple [PStr ''$a'']), (PInt 11, ''ev'', PTuple [PStr ''$b''])]"
    by (simp add: poll_result counting_store_def update_function_def)
  ultimately show ?thesis
    by simp
qed

section \<open>Row objects are immutable\<close>

lemma all_frozen_nth: "all_frozen h \<Longrightarrow> a < length h \<Longrightarrow> frozen (options (h ! a))"
  by (simp add: all_frozen_def list_all_length)

lemma setattr_frozen: "frozen (options obj) \<Longrightarrow> setattr obj name v = Inl FrozenInstanceError"
  by (simp add: setattr_def)

lemma delattr_frozen: "frozen (options obj) \<Longrightarrow> delattr obj name = Inl FrozenInstanceError"
  by (simp add: delattr_def)

lemma all_frozen_new_EventsStreamEventRow:
  "all_frozen h \<Longrightarrow> all_frozen (snd (new_EventsStreamEventRow r h))"
  by (simp add: all_frozen_def new_EventsStreamEventRow_def EventsStreamEventRow_options_def)

lemma all_frozen_new_EventsStreamRow:
  "all_frozen h \<Longrightarrow> all_frozen (snd (new_EventsStreamRow t d h))"
  by (simp add: all_frozen_def new_EventsStreamRow_def EventsStreamRow_options_def)

lemma exec_all_frozen:
  assumes "all_frozen h"
  shows "all_frozen (exec op h)"
proof (cases op)
  case (Call_from_data dat)
  with assms show ?thesis
    by (simp add: all_frozen_new_EventsStreamEventRow del: from_data.simps split: sum.splits)
next
  case (Call_parse_row tag dat)
  with assms show ?thesis
    by (simp add: all_frozen_new_EventsStreamEventRow all_frozen_new_EventsStreamRow
        del: parse_row.simps split: sum.splits prod.splits)
      (metis all_frozen_new_EventsStreamEventRow all_frozen_new_EventsStreamRow snd_conv)
next
  case (Assign b name v)
  with assms show ?thesis
    by (simp add: all_frozen_nth setattr_frozen)
next
  case (Delete b name)
  with assms show ?thesis
    by (simp add: all_frozen_nth delattr_frozen)
qed

lemma exec_keeps:
  assumes "all_frozen h" and "a < length h"
  shows "a < length (exec op h) \<and> exec op h ! a = h ! a"
proof (cases op)
  case (Call_from_data dat)
  with assms(2) show ?thesis
    by (simp add: new_EventsStreamEventRow_def nth_append del: from_data.simps
        split: sum.splits)
next
  case (Call_parse_row tag dat)
  with assms(2) show ?thesis
    by (simp add: new_EventsStreamEventRow_def new_EventsStreamRow_def nth_append
        del: parse_row.simps split: sum.splits)
next
  case (Assign b name v)
  with assms show ?thesis
    by (simp add: all_frozen_nth setattr_frozen)
next
  case (Delete b name)
  with assms show ?thesis
    by (simp add: all_frozen_nth delattr_frozen)
qed

lemma run_all_frozen: "all_frozen h \<Longrightarrow> all_frozen (run ops h)"
  by (induction ops arbitrary: h) (simp_all add: exec_all_frozen)

lemma run_keeps:
  "all_frozen h \<Longrightarrow> a < length h \<Longrightarrow> a < length (run ops h) \<and> run ops h ! a = h ! a"
proof (induction ops arbitrary: h)
  case Nil
  then show ?case by simp
next
  case (Cons op ops)
  from Cons.prems have step: "a < length (exec op h) \<and> exec op h ! a = h ! a"
    by (rule exec_keeps)
  from Cons.prems(1) have "all_frozen (exec op h)"
    by (rule exec_all_frozen)
  with step Cons.IH [of "exec op h"] show ?case
    by simp
qed

lemma run_append: "run (ops @ later) h = run later (run ops h)"
  by (induction ops arbitrary: h) simp_all

lemma all_frozen_Nil: "all_frozen []"
  by (simp add: all_frozen_def)

text \<open>
  Claim C9.  Every row object that the operations have constructed, the
  \<^verbatim>\<open>EventsStreamRow\<close> and the \<^verbatim>\<open>EventsStreamEventRow\<close> alike, keeps its attributes
  through every further operation: an assignment to it or a deletion on it raises
  \<^verbatim>\<open>FrozenInstanceError\<close>, and no run of operations changes it.
\<close>

theorem rows_immutable:
  assumes "a < length (run ops [])"
  shows "run (ops @ later) [] ! a = run ops [] ! a \<and>
         setattr (run ops [] ! a) name v = Inl FrozenInstanceError \<and>
         delattr (run ops [] ! a) name = Inl FrozenInstanceError"
proof -
  have fr: "all_frozen (run ops [])"
    using all_frozen_Nil by (rule run_all_frozen)
  with assms have "run later (run ops []) ! a = run ops [] ! a"
    by (simp add: run_keeps)
  moreover from fr assms have "frozen (options (run ops [] ! a))"
    by (simp add: all_frozen_def list_all_length)
  ultimately show ?thesis
    by (simp add: run_append setattr_def delattr_def)
qed

theorem rows_immutable_witness:
  "run ([Call_parse_row ''ev'' (PList [PStr ''$a'', PStr ''!r1'', PStr ''m.text'', PNone, PNone])]
        @ [Assign 0 ''event_id'' (Value (PStr ''$z'')), Delete 1 ''type'']) [] ! 1 =
     \<lparr>options = \<lparr>slots = True, frozen = True\<rparr>,
      attributes = [(''type'', Value (PStr ''ev'')), (''data'', Reference 0)]\<rparr> \<and>
   run ([Call_parse_row ''ev'' (PList [PStr ''$a'', PStr ''!r1'', PStr ''m.text'', PNone, PNone])]
        @ [Assign 0 ''event_id'' (Value (PStr ''$z'')), Delete 1 ''type'']) [] ! 0 =
     \<lparr>options = \<lparr>slots = True, frozen = True\<rparr>,
      attributes =
        [(''event_id'', Value (PStr ''$a'')), (''room_id'', Value (PStr ''!r1'')),
         (''type'', Value (PStr ''m.text'')), (''state_key'', Value PNone),
         (''redacts'', Value PNone)]\<rparr>"
  using rows_immutable
    [of 1 "[Call_parse_row ''ev'' (PList [PStr ''$a'', PStr ''!r1'', PStr ''m.text'', PNone, PNone])]"
        "[Assign 0 ''event_id'' (Value (PStr ''$z'')), Delete 1 ''type'']" "''type''" "Value PNone"]
  by (simp add: TypeToRow_ev new_EventsStreamEventRow_def new_EventsStreamRow_def
      EventsStreamRow_options_def EventsStreamEventRow_options_def setattr_def delattr_def)


end
